theory Spec2Isabelle
  imports Complex_Main "HOL-Library.Multiset"
begin

chapter \<open>The embedding\<close>

section \<open>Python values and errors\<close>

text \<open>
  The notebooks are Python. An exception is a value of \<open>py_error\<close>, named after the
  Python exception class and carrying its message; a function that can raise returns
  \<open>py_error + 'a\<close>, with \<open>Inl\<close> for the exception that leaves the function.
  \<open>LibraryError\<close> stands for the plain \<open>Exception\<close> that the Mesa library raises.
  Of a call that raises, the model gives the exception only, not the state the call
  leaves behind.
\<close>

datatype py_error =
    TypeError string
  | ValueError string
  | IndexError string
  | AttributeError string
  | RuntimeError string
  | LibraryError string

text \<open>
  A Python \<open>float\<close> is a rational number, one of the two infinities, or not-a-number.
  Comparison of floats is exact; \<open>nan\<close> compares false with everything. Arithmetic on
  floats rounds, so the one place where the functions embedded here compute with floats
  (\<open>np.mean\<close>) is left to the library (section \<open>Agent-based model\<close>).
\<close>

datatype pyfloat = Finite rat | PosInf | NegInf | NaN

fun flt_less :: "pyfloat \<Rightarrow> pyfloat \<Rightarrow> bool" where
  "flt_less (Finite a) (Finite b) = (a < b)"
| "flt_less (Finite a) PosInf = True"
| "flt_less NegInf (Finite b) = True"
| "flt_less NegInf PosInf = True"
| "flt_less x y = False"

type_synonym pos = "int \<times> int"

text \<open>The values that are passed as arguments or bound to global names.\<close>

datatype pyval = IntV int | StrV string | FloatV pyfloat | PosV pos | SelfV

section \<open>Built-in sequence operations\<close>

text \<open>
  A string is a list of characters; a character of the model is one code point below 256.
  A negative index counts from the end.
\<close>

definition norm_index :: "nat \<Rightarrow> int \<Rightarrow> int" where
  "norm_index n i = (if i < 0 then i + int n else i)"

text \<open>\<open>s[i]\<close> on a string: a string of length one, or \<open>IndexError\<close>.\<close>

definition str_getitem :: "string \<Rightarrow> int \<Rightarrow> py_error + string" where
  "str_getitem s i =
     (let j = norm_index (length s) i
      in if 0 \<le> j \<and> j < int (length s) then Inr [s ! nat j]
         else Inl (IndexError ''string index out of range''))"

text \<open>\<open>xs[i]\<close> on a list.\<close>

definition list_getitem :: "'a list \<Rightarrow> int \<Rightarrow> py_error + 'a" where
  "list_getitem xs i =
     (let j = norm_index (length xs) i
      in if 0 \<le> j \<and> j < int (length xs) then Inr (xs ! nat j)
         else Inl (IndexError ''list index out of range''))"

text \<open>
  \<open>xs[lo:hi]\<close>: both bounds are clipped to the sequence, and the slice is empty when the
  upper bound is not above the lower one. A slice never raises.
\<close>

definition slice_bound :: "nat \<Rightarrow> int \<Rightarrow> nat" where
  "slice_bound n i = nat (min (int n) (max 0 (norm_index n i)))"

definition py_slice :: "'a list \<Rightarrow> int \<Rightarrow> int \<Rightarrow> 'a list" where
  "py_slice xs lo hi =
     (let a = slice_bound (length xs) lo; b = slice_bound (length xs) hi
      in take (b - a) (drop a xs))"

text \<open>
  \<open>range(start, stop, step)\<close>: a step of zero raises \<open>ValueError\<close>; otherwise the range has
  a length fixed when it is built, and its \<open>k\<close>-th element is \<open>start + k * step\<close>.
\<close>

definition range_len :: "int \<Rightarrow> int \<Rightarrow> int \<Rightarrow> nat" where
  "range_len start stop step =
     (if 0 < step then nat ((stop - start + step - 1) div step)
      else nat ((start - stop - step - 1) div (- step)))"

definition py_range :: "int \<Rightarrow> int \<Rightarrow> int \<Rightarrow> py_error + int list" where
  "py_range start stop step =
     (if step = 0 then Inl (ValueError ''range() arg 3 must not be zero'')
      else Inr (map (\<lambda>k. start + int k * step) [0 ..< range_len start stop step]))"

text \<open>\<open>range(n)\<close>.\<close>

definition range_n :: "int \<Rightarrow> int list" where
  "range_n n = map int [0 ..< nat n]"

text \<open>
  \<open>s.split()\<close> without arguments: the maximal runs of characters that are not white
  space. The white space characters below code point 256 are those for which
  \<open>str.isspace\<close> holds.
\<close>

definition isspace :: "char \<Rightarrow> bool" where
  "isspace c = (of_char c \<in> {9, 10, 11, 12, 13, 28, 29, 30, 31, 32, 133, 160 :: nat})"

fun split_words :: "string \<Rightarrow> string \<Rightarrow> string list" where
  "split_words word [] = (if word = [] then [] else [word])"
| "split_words word (c # cs) =
     (if isspace c then (if word = [] then split_words [] cs else word # split_words [] cs)
      else split_words (word @ [c]) cs)"

definition str_split :: "string \<Rightarrow> string list" where
  "str_split s = split_words [] s"

text \<open>\<open>sep.join(ws)\<close>.\<close>

fun str_join :: "string \<Rightarrow> string list \<Rightarrow> string" where
  "str_join sep [] = []"
| "str_join sep [w] = w"
| "str_join sep (w # v # ws) = w @ sep @ str_join sep (v # ws)"

text \<open>\<open>str(i)\<close> of an integer: its decimal digits, with a minus sign when negative.\<close>

definition digit_char :: "nat \<Rightarrow> char" where
  "digit_char d = char_of (48 + d)"

function str_of_nat :: "nat \<Rightarrow> string" where
  "str_of_nat n =
     (if n < 10 then [digit_char n] else str_of_nat (n div 10) @ [digit_char (n mod 10)])"
  by pat_completeness auto
termination
  by (relation "measure id") auto

definition str_of_int :: "int \<Rightarrow> string" where
  "str_of_int i = (if i < 0 then CHR ''-'' # str_of_nat (nat (- i)) else str_of_nat (nat i))"

text \<open>
  \<open>template.format(a)\<close> and an f-string with one replacement field: the first \<open>{}\<close> of
  the template is replaced by the text of the argument.
\<close>

fun py_format :: "string \<Rightarrow> string \<Rightarrow> string" where
  "py_format (c # d # rest) a =
     (if c = CHR ''{'' \<and> d = CHR ''}'' then a @ rest else c # py_format (d # rest) a)"
| "py_format rest a = rest"

section \<open>Global state and standard output\<close>

text \<open>
  What a notebook cell can change: the global names of the kernel and the text written
  to standard output. \<open>print(x)\<close> writes the text of \<open>x\<close> and then the line end as two
  separate writes to \<open>sys.stdout\<close>; \<open>print()\<close> writes the line end only.
\<close>

record world =
  globals :: "string \<Rightarrow> pyval option"
  stdout :: string

definition py_write :: "string \<Rightarrow> 'z world_scheme \<Rightarrow> 'z world_scheme" where
  "py_write s w = w\<lparr>stdout := stdout w @ s\<rparr>"

definition py_print :: "string \<Rightarrow> 'z world_scheme \<Rightarrow> 'z world_scheme" where
  "py_print s w = py_write ''\<newline>'' (py_write s w)"

definition py_print0 :: "'z world_scheme \<Rightarrow> 'z world_scheme" where
  "py_print0 w = py_write ''\<newline>'' w"

section \<open>The performance notebook\<close>

subsection \<open>Counting the elements of a list\<close>

text \<open>
  A Python dictionary is a finite map; two dictionaries are equal (\<open>==\<close>) when they have
  the same keys with the same values, whatever the insertion order, which is equality of
  maps. Counts are natural numbers: every value stored below is the result of
  \<open>list.count\<close> or of adding one to a count that starts at zero.
\<close>

type_synonym 'k counts = "'k \<rightharpoonup> nat"

text \<open>\<open>L.count(i)\<close>: the number of positions of \<open>L\<close> whose element equals \<open>i\<close>.\<close>

primrec list_count :: "'a list \<Rightarrow> 'a \<Rightarrow> nat" where
  "list_count [] i = 0"
| "list_count (y # ys) i = (if y = i then 1 else 0) + list_count ys i"

text \<open>\<open>d.update(e)\<close>: the entries of \<open>e\<close> are written into \<open>d\<close>, replacing what was there.\<close>

definition dict_update :: "('k \<rightharpoonup> 'v) \<Rightarrow> ('k \<rightharpoonup> 'v) \<Rightarrow> ('k \<rightharpoonup> 'v)" where
  "dict_update d e = d ++ e"

text \<open>\<open>d.get(k, default)\<close>.\<close>

definition dict_get :: "('k \<rightharpoonup> 'v) \<Rightarrow> 'k \<Rightarrow> 'v \<Rightarrow> 'v" where
  "dict_get d k dflt = (case d k of None \<Rightarrow> dflt | Some v \<Rightarrow> v)"

text \<open>
  \<^verbatim>\<open>
  def count_list(L):
      out = {}
      for i in L:
          out.update({i : L.count(i)})
      return out
  \<close>
  The loop runs over the remaining elements and carries \<open>out\<close>. The name \<open>count_list\<close>
  is taken by HOL's list library, hence the suffix.
\<close>

fun count_list_loop :: "'a list \<Rightarrow> 'a list \<Rightarrow> 'a counts \<Rightarrow> 'a counts" where
  "count_list_loop L [] out = out"
| "count_list_loop L (i # rest) out =
     count_list_loop L rest (dict_update out [i \<mapsto> list_count L i])"

definition count_list_py :: "'a list \<Rightarrow> 'a counts" where
  "count_list_py L = count_list_loop L L Map.empty"

text \<open>
  \<^verbatim>\<open>
  def count_list2(L):
      out = {}
      for i in set(L):
          out.update({i : L.count(i)})
      return out
  \<close>
  The body of the loop is that of \<open>count_list\<close>; only the sequence iterated over differs.
  Python does not specify the order in which a set is iterated, so the order \<open>ks\<close> in
  which \<open>set(L)\<close> yields its elements is an argument: any list without repetition whose
  elements are those of \<open>L\<close>.
\<close>

definition iterates_set_of :: "'a list \<Rightarrow> 'a list \<Rightarrow> bool" where
  "iterates_set_of ks L = (distinct ks \<and> set ks = set L)"

definition count_list2 :: "'a list \<Rightarrow> 'a list \<Rightarrow> 'a counts" where
  "count_list2 ks L = count_list_loop L ks Map.empty"

text \<open>
  \<^verbatim>\<open>
  def count_list3(L):
      out = {}
      for i in L:
          out[i] = out.get(i, 0) + 1
      return out
  \<close>
\<close>

fun count_list3_loop :: "'a list \<Rightarrow> 'a counts \<Rightarrow> 'a counts" where
  "count_list3_loop [] out = out"
| "count_list3_loop (i # rest) out =
     count_list3_loop rest (out(i \<mapsto> dict_get out i 0 + 1))"

definition count_list3 :: "'a list \<Rightarrow> 'a counts" where
  "count_list3 L = count_list3_loop L Map.empty"

text \<open>
  \<^verbatim>\<open>
  from collections import Counter

  def count_list4(L):
      return dict(Counter(L))
  \<close>
  \<open>collections.Counter\<close> belongs to the standard library, not to the notebook. Its
  documentation describes a bag (multiset) of the elements of the iterable; \<open>Counter\<close>
  is that multiset, and \<open>dict\<close> of it has one key for each element that occurs, with its
  multiplicity.
\<close>

definition Counter :: "'a list \<Rightarrow> 'a multiset" where
  "Counter L = mset L"

definition dict_of_counter :: "'a multiset \<Rightarrow> 'a counts" where
  "dict_of_counter c = (\<lambda>x. if x \<in># c then Some (count c x) else None)"

definition count_list4 :: "'a list \<Rightarrow> 'a counts" where
  "count_list4 L = dict_of_counter (Counter L)"

text \<open>
  The specification the four functions share, in the words of the notebook ("count
  distinct elements in a list"): the keys are the elements of \<open>L\<close>, and each key is
  mapped to the number of positions of \<open>L\<close> that hold it.
\<close>

definition occurrence_dict :: "'a list \<Rightarrow> 'a counts" where
  "occurrence_dict L = (\<lambda>x. if x \<in> set L then Some (length (filter (\<lambda>y. y = x) L)) else None)"

subsection \<open>Reversing the words of a string\<close>

text \<open>
  \<^verbatim>\<open>
  def reverse1(s):
      words = s.split()
      out = ""
      n = len(words)
      for i in range(n):
          out += words[-i-1]
          if i < n - 1:
              out += " "
      return out
  \<close>
  The index \<open>-i-1\<close> is looked up as Python does, so an index out of range would be an
  \<open>IndexError\<close> of \<open>reverse1\<close>.
\<close>

fun reverse1_loop :: "string list \<Rightarrow> int \<Rightarrow> int list \<Rightarrow> string \<Rightarrow> py_error + string" where
  "reverse1_loop words n [] out = Inr out"
| "reverse1_loop words n (i # rest) out =
     (case list_getitem words (- i - 1) of
        Inl e \<Rightarrow> Inl e
      | Inr w \<Rightarrow>
          (let out1 = out @ w;
               out2 = (if i < n - 1 then out1 @ '' '' else out1)
           in reverse1_loop words n rest out2))"

definition reverse1 :: "string \<Rightarrow> py_error + string" where
  "reverse1 s =
     (let words = str_split s;
          n = int (length words)
      in reverse1_loop words n (range_n n) [])"

text \<open>
  \<^verbatim>\<open>
  def reverse2(s):
      return " ".join(reversed(s.split()))
  \<close>
\<close>

definition reverse2 :: "string \<Rightarrow> string" where
  "reverse2 s = str_join '' '' (rev (str_split s))"

section \<open>The text generation notebook: cutting the text into training examples\<close>

text \<open>
  \<^verbatim>\<open>
  def split(raw_text, max_len, step_size = 1):

      lines = []
      next_chars = []

      for i in range(0, len(text) - max_len, step_size):
          lines.append(text[i:i+max_len])
          next_chars.append(text[i+max_len])

      return lines, next_chars
  \<close>
  The body reads the global name \<open>text\<close>, which is the first argument of the model; the
  parameter \<open>raw_text\<close> may be any Python value, hence a value of any type. The call
  \<open>split(raw_text, max_len)\<close> is \<open>split text raw_text max_len 1\<close>.
\<close>

fun split_loop :: "string \<Rightarrow> int \<Rightarrow> int list \<Rightarrow> string list \<Rightarrow> string list
    \<Rightarrow> py_error + (string list \<times> string list)" where
  "split_loop text max_len [] lines next_chars = Inr (lines, next_chars)"
| "split_loop text max_len (i # rest) lines next_chars =
     (let lines' = lines @ [py_slice text i (i + max_len)]
      in case str_getitem text (i + max_len) of
           Inl e \<Rightarrow> Inl e
         | Inr c \<Rightarrow> split_loop text max_len rest lines' (next_chars @ [c]))"

definition split :: "string \<Rightarrow> 'r \<Rightarrow> int \<Rightarrow> int \<Rightarrow> py_error + (string list \<times> string list)" where
  "split text raw_text max_len step_size =
     (case py_range 0 (int (length text) - max_len) step_size of
        Inl e \<Rightarrow> Inl e
      | Inr idx \<Rightarrow> split_loop text max_len idx [] [])"

section \<open>The database notebook: preparing a data frame\<close>





section \<open>The performance notebook: two threads\<close>

subsection \<open>The two tasks\<close>

text \<open>
  \<^verbatim>\<open>
  def task1():
      print("Task 1 assigned to thread: {}".format(threading.current_thread().name))
      print("ID of process running task 1: {}".format(os.getpid()))
      print("To boldly go")
      print()

  def task2():
      print("Task 2 assigned to thread: {}".format(threading.current_thread().name))
      print("ID of process running task 2: {}".format(os.getpid()))
      print("Where no one has gone before")
      print()
  \<close>
  A task reads two things of its environment: the name of the thread that executes it
  (\<open>threading.current_thread().name\<close>) and the identifier of the process (\<open>os.getpid()\<close>).
  Both are arguments of the model.
\<close>

definition task1 :: "string \<Rightarrow> int \<Rightarrow> 'z world_scheme \<Rightarrow> 'z world_scheme" where
  "task1 thread_name pid w =
     (let w1 = py_print (py_format ''Task 1 assigned to thread: {}'' thread_name) w;
          w2 = py_print (py_format ''ID of process running task 1: {}'' (str_of_int pid)) w1;
          w3 = py_print ''To boldly go'' w2
      in py_print0 w3)"

definition task2 :: "string \<Rightarrow> int \<Rightarrow> 'z world_scheme \<Rightarrow> 'z world_scheme" where
  "task2 thread_name pid w =
     (let w1 = py_print (py_format ''Task 2 assigned to thread: {}'' thread_name) w;
          w2 = py_print (py_format ''ID of process running task 2: {}'' (str_of_int pid)) w1;
          w3 = py_print ''Where no one has gone before'' w2
      in py_print0 w3)"

text \<open>
  The writes a task performs, one after the other. Another thread can run between any
  two of them (the output stored in the notebook shows a line of one task inside a line
  of the other).
\<close>

definition task1_writes :: "string \<Rightarrow> int \<Rightarrow> string list" where
  "task1_writes thread_name pid =
     [py_format ''Task 1 assigned to thread: {}'' thread_name, ''\<newline>'',
      py_format ''ID of process running task 1: {}'' (str_of_int pid), ''\<newline>'',
      ''To boldly go'', ''\<newline>'',
      ''\<newline>'']"

definition task2_writes :: "string \<Rightarrow> int \<Rightarrow> string list" where
  "task2_writes thread_name pid =
     [py_format ''Task 2 assigned to thread: {}'' thread_name, ''\<newline>'',
      py_format ''ID of process running task 2: {}'' (str_of_int pid), ''\<newline>'',
      ''Where no one has gone before'', ''\<newline>'',
      ''\<newline>'']"

subsection \<open>The driver cell and the interleaving of the threads\<close>

text \<open>
  \<^verbatim>\<open>
  print("ID of process running main program: {}".format(os.getpid()))
  print("Main thread name: {}".format(threading.current_thread().name))
  print()
  t1 = threading.Thread(target=task1, name='THREAD 1')
  t2 = threading.Thread(target=task2, name='THREAD 2')

   # starting threads
  t1.start()
  t2.start()

  # wait until all threads finish
  t1.join()
  t2.join()
  \<close>
  The cell is the list of its statements. A thread object is \<open>NotCreated\<close> before its
  constructor has run, \<open>Created\<close> before \<open>start\<close>, \<open>Running ws\<close> once started, with the
  writes \<open>ws\<close> its target has still to perform (\<open>Running []\<close>: the target has returned),
  and \<open>Joined\<close> once a \<open>join\<close> on it has returned.
\<close>

datatype tid = T1 | T2

datatype thread_state = NotCreated | Created | Running "string list" | Joined

datatype stmt = Print string | Print0 | NewThread tid | Start tid | Join tid

datatype actor = MainThread | Worker tid

record sys = world +
  todo :: "stmt list"
  thr :: "tid \<Rightarrow> thread_state"
  raised :: "py_error option"

fun thread_name :: "tid \<Rightarrow> string" where
  "thread_name T1 = ''THREAD 1''"
| "thread_name T2 = ''THREAD 2''"

fun target_writes :: "tid \<Rightarrow> int \<Rightarrow> string list" where
  "target_writes T1 pid = task1_writes (thread_name T1) pid"
| "target_writes T2 pid = task2_writes (thread_name T2) pid"

definition driver :: "string \<Rightarrow> int \<Rightarrow> stmt list" where
  "driver main_name pid =
     [Print (py_format ''ID of process running main program: {}'' (str_of_int pid)),
      Print (py_format ''Main thread name: {}'' main_name),
      Print0,
      NewThread T1,
      NewThread T2,
      Start T1,
      Start T2,
      Join T1,
      Join T2]"

text \<open>
  One statement of the main thread. \<open>start\<close> on a thread that is not freshly created and
  \<open>join\<close> on a thread that was never started raise \<open>RuntimeError\<close>, as
  \<open>threading.Thread\<close> does. \<open>join\<close> returns only when the target has returned: while the
  thread still has writes to perform, the main thread stays at the \<open>join\<close>.
\<close>

fun exec_stmt :: "int \<Rightarrow> stmt \<Rightarrow> stmt list \<Rightarrow> sys \<Rightarrow> sys" where
  "exec_stmt pid (Print t) rest s = py_print t (s\<lparr>todo := rest\<rparr>)"
| "exec_stmt pid Print0 rest s = py_print0 (s\<lparr>todo := rest\<rparr>)"
| "exec_stmt pid (NewThread t) rest s = s\<lparr>todo := rest, thr := (thr s)(t := Created)\<rparr>"
| "exec_stmt pid (Start t) rest s =
     (case thr s t of
        Created \<Rightarrow> s\<lparr>todo := rest, thr := (thr s)(t := Running (target_writes t pid))\<rparr>
      | _ \<Rightarrow> s\<lparr>raised := Some (RuntimeError ''threads can only be started once'')\<rparr>)"
| "exec_stmt pid (Join t) rest s =
     (case thr s t of
        Running [] \<Rightarrow> s\<lparr>todo := rest, thr := (thr s)(t := Joined)\<rparr>
      | Running (w # ws) \<Rightarrow> s
      | Joined \<Rightarrow> s\<lparr>todo := rest\<rparr>
      | _ \<Rightarrow> s\<lparr>raised := Some (RuntimeError ''cannot join thread before it is started'')\<rparr>)"

text \<open>
  One step of the whole program: the scheduler picks the main thread or a worker. A
  worker that is picked performs its next write; picking a thread that cannot move
  changes nothing.
\<close>

fun sched_step :: "int \<Rightarrow> actor \<Rightarrow> sys \<Rightarrow> sys" where
  "sched_step pid MainThread s =
     (if raised s \<noteq> None then s
      else case todo s of [] \<Rightarrow> s | c # rest \<Rightarrow> exec_stmt pid c rest s)"
| "sched_step pid (Worker t) s =
     (case thr s t of
        Running (w # ws) \<Rightarrow> py_write w (s\<lparr>thr := (thr s)(t := Running ws)\<rparr>)
      | _ \<Rightarrow> s)"

text \<open>A run under a schedule, the list of the scheduler's picks.\<close>

definition run :: "int \<Rightarrow> actor list \<Rightarrow> sys \<Rightarrow> sys" where
  "run pid sch s = fold (sched_step pid) sch s"

definition init :: "string \<Rightarrow> int \<Rightarrow> (string \<Rightarrow> pyval option) \<Rightarrow> sys" where
  "init main_name pid g =
     \<lparr>globals = g, stdout = [], todo = driver main_name pid,
      thr = (\<lambda>t. NotCreated), raised = None\<rparr>"

text \<open>A schedule under which the cell runs to its end; the main thread is picked once
  while \<open>t1\<close> is still printing and waits.\<close>

definition fair_schedule :: "actor list" where
  "fair_schedule =
     [MainThread, MainThread, MainThread, MainThread, MainThread, MainThread, MainThread,
      Worker T2, Worker T2, Worker T2, Worker T2, MainThread,
      Worker T1, Worker T1, Worker T1, Worker T1, Worker T1, Worker T1, Worker T1,
      Worker T2, Worker T2, Worker T2, MainThread, MainThread]"

section \<open>Agent-based model\<close>

subsection \<open>Calling a constructor with keyword arguments\<close>

text \<open>
  A call that passes every argument by keyword, to a function whose parameters (after
  \<open>self\<close>) have no defaults. Python takes the keywords in the order of the call and
  raises \<open>TypeError\<close> at the first one that names no parameter; when all are accepted, a
  parameter that received no value raises \<open>TypeError\<close> as well.
\<close>

type_synonym kwargs = "(string \<times> pyval) list"

definition quoted :: "string \<Rightarrow> string" where
  "quoted k = [CHR 0x27] @ k @ [CHR 0x27]"

definition unexpected_keyword :: "string \<Rightarrow> py_error" where
  "unexpected_keyword k = TypeError (''__init__() got an unexpected keyword argument '' @ quoted k)"

definition missing_argument :: "string \<Rightarrow> py_error" where
  "missing_argument p = TypeError (''__init__() missing 1 required positional argument: '' @ quoted p)"

fun bind_keywords :: "string list \<Rightarrow> kwargs \<Rightarrow> py_error + kwargs" where
  "bind_keywords params [] = Inr []"
| "bind_keywords params ((k, v) # kws) =
     (if k \<in> set params
      then (case bind_keywords params kws of Inl e \<Rightarrow> Inl e | Inr b \<Rightarrow> Inr ((k, v) # b))
      else Inl (unexpected_keyword k))"

definition call2 :: "string \<Rightarrow> string \<Rightarrow> (pyval \<Rightarrow> pyval \<Rightarrow> 'r) \<Rightarrow> kwargs \<Rightarrow> py_error + 'r" where
  "call2 p1 p2 f kws =
     (case bind_keywords [p1, p2] kws of
        Inl e \<Rightarrow> Inl e
      | Inr b \<Rightarrow>
          (case map_of b p1 of
             None \<Rightarrow> Inl (missing_argument p1)
           | Some v1 \<Rightarrow>
               (case map_of b p2 of
                  None \<Rightarrow> Inl (missing_argument p2)
                | Some v2 \<Rightarrow> Inr (f v1 v2))))"

subsection \<open>The agents\<close>

text \<open>
  The class \<open>ToyAgent\<close> that is in scope when \<open>SchellingModel\<close> is defined is the second
  one of the notebook (the cell that brings in the grid rebinds the name):
  \<^verbatim>\<open>
  class ToyAgent(Agent):
      def __init__(self, pos, model):
          super().__init__(pos, model)
          self.pos = pos
  \<close>
  \<open>Agent.__init__(unique_id, model)\<close> of the library stores its two arguments.
\<close>

record toy_agent =
  unique_id :: pyval
  model :: pyval
  pos :: pyval

definition ToyAgent_init :: "pyval \<Rightarrow> pyval \<Rightarrow> toy_agent" where
  "ToyAgent_init pos0 model0 = \<lparr>unique_id = pos0, model = model0, pos = pos0\<rparr>"

definition ToyAgent :: "kwargs \<Rightarrow> py_error + toy_agent" where
  "ToyAgent kws = call2 ''pos'' ''model'' ToyAgent_init kws"

text \<open>
  \<^verbatim>\<open>
  class SchellingAgent(Agent):
      def __init__(self, pos, agent_type, homophily, model):
          super().__init__(pos, model)
          self.pos = pos
          self.type = agent_type
          self.homophily = homophily
  \<close>
  The model an agent belongs to is the model its \<open>step\<close> is run in, so the attribute
  \<open>model\<close> is not stored with the agent.
\<close>

record schelling_agent =
  unique_id :: pos
  pos :: pos
  type :: string
  homophily :: pyfloat

definition SchellingAgent_init :: "pos \<Rightarrow> string \<Rightarrow> pyfloat \<Rightarrow> schelling_agent" where
  "SchellingAgent_init pos0 agent_type homophily0 =
     \<lparr>unique_id = pos0, pos = pos0, type = agent_type, homophily = homophily0\<rparr>"

subsection \<open>The model and the library it calls\<close>

text \<open>
  An instance of \<open>SchellingModel\<close> has the attributes \<open>schedule\<close> (the agents registered
  with the scheduler, in the order in which they were added; an agent is identified by
  its place in this list), \<open>grid\<close> (the library's \<open>SingleGrid\<close>, of a type \<open>'g\<close> this
  development does not look into) and \<open>moved\<close>, which exists only once \<open>step\<close> has
  assigned it. The model prints, so it extends \<open>world\<close>.
\<close>

record ('g, 'a) schelling_model = world +
  schedule :: "'a list"
  grid :: 'g
  moved :: "int option"

text \<open>
  What \<open>SchellingAgent.step\<close> and \<open>SchellingModel.step\<close> call in Mesa and NumPy. The
  library is an argument of the model, so that every theorem holds for whatever the
  library does:
  \<^item> \<open>neighbor_iter g p\<close>: the agents \<open>grid.neighbor_iter(p)\<close> yields;
  \<^item> \<open>move_to_empty g a\<close>: \<open>grid.move_to_empty(a)\<close>, which raises or returns the grid
    after the move together with the cell it has assigned to \<open>a.pos\<close>;
  \<^item> \<open>shuffle g ks\<close>: the order in which \<open>RandomActivation.step\<close> activates the agents
    \<open>ks\<close>;
  \<^item> \<open>np_mean bs\<close>: \<open>np.mean\<close> of a list of booleans.
\<close>

record 'g mesa =
  neighbor_iter :: "'g \<Rightarrow> pos \<Rightarrow> schelling_agent list"
  move_to_empty :: "'g \<Rightarrow> schelling_agent \<Rightarrow> py_error + ('g \<times> pos)"
  shuffle :: "'g \<Rightarrow> nat list \<Rightarrow> nat list"
  np_mean :: "bool list \<Rightarrow> pyfloat"

text \<open>
  \<^verbatim>\<open>
      def step(self):

          pct_similar_neighbors = np.mean([
              self.type == other.type for other in self.model.grid.neighbor_iter(self.pos)
          ])

          if pct_similar_neighbors < self.homophily:
              self.model.grid.move_to_empty(self)
              self.model.moved += 1
  \<close>
  \<open>self\<close> is the agent at place \<open>i\<close> of the schedule. The library writes the new cell to
  \<open>self.pos\<close>; the agent object is shared with the schedule, which therefore sees the
  new position. \<open>moved += 1\<close> on a model without the attribute is an \<open>AttributeError\<close>.
\<close>

definition pct_similar_neighbors ::
  "'g mesa \<Rightarrow> schelling_agent \<Rightarrow> ('g, schelling_agent) schelling_model \<Rightarrow> pyfloat" where
  "pct_similar_neighbors lib self m =
     np_mean lib (map (\<lambda>other. type self = type other) (neighbor_iter lib (grid m) (pos self)))"

definition SchellingAgent_step ::
  "'g mesa \<Rightarrow> nat \<Rightarrow> schelling_agent \<Rightarrow> ('g, schelling_agent) schelling_model
    \<Rightarrow> py_error + ('g, schelling_agent) schelling_model" where
  "SchellingAgent_step lib i self m =
     (if flt_less (pct_similar_neighbors lib self m) (homophily self)
      then (case move_to_empty lib (grid m) self of
              Inl e \<Rightarrow> Inl e
            | Inr (g, p) \<Rightarrow>
                (let m1 = m\<lparr>grid := g, schedule := (schedule m)[i := self\<lparr>pos := p\<rparr>]\<rparr>
                 in case moved m1 of
                      None \<Rightarrow> Inl (AttributeError ''moved'')
                    | Some k \<Rightarrow> Inr (m1\<lparr>moved := Some (k + 1)\<rparr>)))
      else Inr m)"

text \<open>
  \<open>self.schedule.step()\<close>: the scheduler calls \<open>step\<close> of each agent in the order it has
  drawn, skipping a key that names no agent; an exception of an agent's \<open>step\<close> ends the
  sweep.
\<close>

fun activate ::
  "'g mesa \<Rightarrow> nat list \<Rightarrow> ('g, schelling_agent) schelling_model
    \<Rightarrow> py_error + ('g, schelling_agent) schelling_model" where
  "activate lib [] m = Inr m"
| "activate lib (i # rest) m =
     (if i < length (schedule m)
      then (case SchellingAgent_step lib i (schedule m ! i) m of
              Inl e \<Rightarrow> Inl e
            | Inr m' \<Rightarrow> activate lib rest m')
      else activate lib rest m)"

text \<open>
  \<^verbatim>\<open>
      def step(self):
          self.moved = 0
          self.schedule.step()
          print(f"{self.moved} agents moved in this timestep")
  \<close>
\<close>

definition SchellingModel_step ::
  "'g mesa \<Rightarrow> ('g, schelling_agent) schelling_model
    \<Rightarrow> py_error + ('g, schelling_agent) schelling_model" where
  "SchellingModel_step lib m =
     (let m0 = m\<lparr>moved := Some 0\<rparr>
      in case activate lib (shuffle lib (grid m0) [0 ..< length (schedule m0)]) m0 of
           Inl e \<Rightarrow> Inl e
         | Inr m1 \<Rightarrow>
             (case moved m1 of
                None \<Rightarrow> Inl (AttributeError ''moved'')
              | Some k \<Rightarrow> Inr (py_print (py_format ''{} agents moved in this timestep'' (str_of_int k)) m1)))"

subsection \<open>Building the model\<close>

text \<open>
  \<^verbatim>\<open>
  class SchellingModel(Model):
      def __init__(self, width, height, density, homophily):

          self.schedule = RandomActivation(self)
          self.grid = SingleGrid(width, height, torus=True)

          for cell in self.grid.coord_iter():
              x = cell[1]
              y = cell[2]
              if self.random.random() < density:

                  agent_type = np.random.choice(["triangle", "square"])

                  agent = ToyAgent(pos = (x, y),
                                   agent_type = agent_type,
                                   homophily = homophily,
                                   model = self)

                  self.schedule.add(agent)
                  self.grid.position_agent(agent, (x, y))
  \<close>
  What the constructor calls in the library is again an argument: the grid constructor,
  the cells \<open>coord_iter\<close> yields, \<open>position_agent\<close> (which may raise), and the two random
  sources. \<open>random_random n\<close> is the result of the \<open>n\<close>-th call of \<open>self.random.random()\<close>;
  the loop makes one call for each cell, so the \<open>n\<close>-th draw is that of the \<open>n\<close>-th cell.
  \<open>random_choice n\<close> is the choice made at that cell.
\<close>

record 'g mesa_setup =
  SingleGrid :: "int \<Rightarrow> int \<Rightarrow> 'g"
  coord_iter :: "'g \<Rightarrow> pos list"
  position_agent :: "'g \<Rightarrow> toy_agent \<Rightarrow> pos \<Rightarrow> py_error + 'g"
  random_random :: "nat \<Rightarrow> pyfloat"
  random_choice :: "nat \<Rightarrow> string list \<Rightarrow> string"

fun SchellingModel_init_loop ::
  "'g mesa_setup \<Rightarrow> pyfloat \<Rightarrow> pyfloat \<Rightarrow> pos list \<Rightarrow> nat
    \<Rightarrow> ('g, toy_agent) schelling_model \<Rightarrow> py_error + ('g, toy_agent) schelling_model" where
  "SchellingModel_init_loop lib density homophily0 [] n self = Inr self"
| "SchellingModel_init_loop lib density homophily0 ((x, y) # cells) n self =
     (if flt_less (random_random lib n) density
      then (let agent_type = random_choice lib n [''triangle'', ''square'']
            in case ToyAgent [(''pos'', PosV (x, y)), (''agent_type'', StrV agent_type),
                              (''homophily'', FloatV homophily0), (''model'', SelfV)] of
                 Inl e \<Rightarrow> Inl e
               | Inr agent \<Rightarrow>
                   (let self1 = self\<lparr>schedule := schedule self @ [agent]\<rparr>
                    in case position_agent lib (grid self1) agent (x, y) of
                         Inl e \<Rightarrow> Inl e
                       | Inr g \<Rightarrow>
                           SchellingModel_init_loop lib density homophily0 cells (Suc n)
                             (self1\<lparr>grid := g\<rparr>)))
      else SchellingModel_init_loop lib density homophily0 cells (Suc n) self)"

definition SchellingModel_init ::
  "'g mesa_setup \<Rightarrow> world \<Rightarrow> int \<Rightarrow> int \<Rightarrow> pyfloat \<Rightarrow> pyfloat
    \<Rightarrow> py_error + ('g, toy_agent) schelling_model" where
  "SchellingModel_init lib w width height density homophily0 =
     (let self = \<lparr>globals = globals w, stdout = stdout w, schedule = [],
                   grid = SingleGrid lib width height, moved = None\<rparr>
      in SchellingModel_init_loop lib density homophily0 (coord_iter lib (grid self)) 0 self)"

subsection \<open>A small library to run examples on\<close>

text \<open>
  The theorems hold for every library. To run the model on concrete inputs a library is
  needed; this one is a grid on a torus that records which agent stands on which cell.
  The neighbours of a cell are the agents on the eight surrounding cells. An agent is
  moved to the first cell, in the order of \<open>all_cells\<close>, that is free and is not the
  cell it stands on (the library draws one of the free cells at random; the first is
  one of the outcomes). The mean of a list of booleans is the fraction of \<open>True\<close>, and
  \<open>nan\<close> for the empty list; the fractions that occur in the examples (\<open>0\<close> and
  \<open>1/2\<close>) are floats, so no rounding takes place there. The scheduler activates the
  agents in the order of the schedule.
\<close>

record grid_state =
  gwidth :: nat
  gheight :: nat
  cells :: "(pos \<times> schelling_agent) list"

definition torus_adjacent :: "nat \<Rightarrow> nat \<Rightarrow> pos \<Rightarrow> pos \<Rightarrow> bool" where
  "torus_adjacent w h p q =
     (p \<noteq> q \<and> (fst q - fst p) mod int w \<in> {0, 1, int w - 1}
            \<and> (snd q - snd p) mod int h \<in> {0, 1, int h - 1})"

definition all_cells :: "nat \<Rightarrow> nat \<Rightarrow> pos list" where
  "all_cells w h = concat (map (\<lambda>x. map (\<lambda>y. (int x, int y)) [0 ..< h]) [0 ..< w])"

definition empties :: "grid_state \<Rightarrow> pos list" where
  "empties g = filter (\<lambda>q. q \<notin> set (map fst (cells g))) (all_cells (gwidth g) (gheight g))"

definition exact_mean :: "bool list \<Rightarrow> pyfloat" where
  "exact_mean bs =
     (if bs = [] then NaN
      else Finite (of_nat (length (filter (\<lambda>b. b) bs)) / of_nat (length bs)))"

definition demo_mesa :: "grid_state mesa" where
  "demo_mesa =
     \<lparr>neighbor_iter = (\<lambda>g p. map snd (filter (\<lambda>(q, a). torus_adjacent (gwidth g) (gheight g) p q) (cells g))),
      move_to_empty = (\<lambda>g a.
         case filter (\<lambda>q. q \<noteq> pos a) (empties g) of
           [] \<Rightarrow> Inl (LibraryError ''ERROR: No empty cells'')
         | q # qs \<Rightarrow>
             Inr (g\<lparr>cells := filter (\<lambda>(p, b). p \<noteq> pos a) (cells g) @ [(q, a\<lparr>pos := q\<rparr>)]\<rparr>, q)),
      shuffle = (\<lambda>g order. order),
      np_mean = exact_mean\<rparr>"

text \<open>
  Three agents on a grid of five by five cells, each content when at least half of its
  neighbours are of its type: two triangles \<open>A\<close> at \<open>(0, 0)\<close> and \<open>B\<close> at \<open>(1, 0)\<close>, and a
  square \<open>D\<close> at \<open>(0, 1)\<close>. Each triangle has one neighbour of its type out of two; the
  square has none out of two.
\<close>

definition agent_A :: schelling_agent where
  "agent_A = SchellingAgent_init (0, 0) ''triangle'' (Finite (1 / 2))"

definition agent_B :: schelling_agent where
  "agent_B = SchellingAgent_init (1, 0) ''triangle'' (Finite (1 / 2))"

definition agent_D :: schelling_agent where
  "agent_D = SchellingAgent_init (0, 1) ''square'' (Finite (1 / 2))"

definition demo_grid :: grid_state where
  "demo_grid = \<lparr>gwidth = 5, gheight = 5,
                 cells = [((0, 0), agent_A), ((1, 0), agent_B), ((0, 1), agent_D)]\<rparr>"

definition demo_model :: "(grid_state, schelling_agent) schelling_model" where
  "demo_model =
     \<lparr>globals = (\<lambda>x. None), stdout = [],
      schedule = [agent_A, agent_B, agent_D],
      grid = demo_grid,
      moved = Some 0\<rparr>"

text \<open>The grid and the model after \<open>D\<close> has moved to the first free cell, \<open>(0, 2)\<close>.\<close>

definition demo_grid_after :: grid_state where
  "demo_grid_after = \<lparr>gwidth = 5, gheight = 5,
       cells = [((0, 0), agent_A), ((1, 0), agent_B), ((0, 2), agent_D\<lparr>pos := (0, 2)\<rparr>)]\<rparr>"

definition demo_model_after :: "(grid_state, schelling_agent) schelling_model" where
  "demo_model_after =
     \<lparr>globals = (\<lambda>x. None), stdout = [],
      schedule = [agent_A, agent_B, agent_D\<lparr>pos := (0, 2)\<rparr>],
      grid = demo_grid_after,
      moved = Some 1\<rparr>"

text \<open>
  A library for the constructor: a grid is its width and height, a cell for every pair
  of coordinates; of the random draws only the third, \<open>0.3\<close>, is below one half.
\<close>

definition demo_setup :: "(nat \<times> nat) mesa_setup" where
  "demo_setup =
     \<lparr>SingleGrid = (\<lambda>width height. (nat width, nat height)),
      coord_iter = (\<lambda>(w, h). all_cells w h),
      position_agent = (\<lambda>g a p. Inr g),
      random_random = (\<lambda>n. if n = 2 then Finite (3 / 10) else Finite (9 / 10)),
      random_choice = (\<lambda>n options. case options of [] \<Rightarrow> [] | x # xs \<Rightarrow> x)\<rparr>"

definition empty_world :: world where
  "empty_world = \<lparr>globals = (\<lambda>x. None), stdout = []\<rparr>"






section \<open>Predicates used in the proofs\<close>

text \<open>
  Where the main thread stands determines the state of the two threads: \<open>at_pc k\<close> holds
  when \<open>k\<close> statements of the driver cell have been executed.
\<close>

fun is_running :: "thread_state \<Rightarrow> bool" where
  "is_running (Running ws) = True"
| "is_running st = False"

definition at_pc :: "nat \<Rightarrow> string \<Rightarrow> int \<Rightarrow> sys \<Rightarrow> bool" where
  "at_pc k mn pid s =
     (raised s = None \<and> k \<le> 9 \<and> todo s = drop k (driver mn pid) \<and>
      (if k \<le> 3 then thr s T1 = NotCreated \<and> thr s T2 = NotCreated
       else if k = 4 then thr s T1 = Created \<and> thr s T2 = NotCreated
       else if k = 5 then thr s T1 = Created \<and> thr s T2 = Created
       else if k = 6 then is_running (thr s T1) \<and> thr s T2 = Created
       else if k = 7 then is_running (thr s T1) \<and> is_running (thr s T2)
       else if k = 8 then thr s T1 = Joined \<and> is_running (thr s T2)
       else thr s T1 = Joined \<and> thr s T2 = Joined))"

text \<open>
  What the program has printed. \<open>main_output k\<close> is the text of the first \<open>k\<close> statements
  of the driver cell. A trace is the list of the writes the workers have performed so far,
  each with the thread that made it; \<open>wrote t tr\<close> are the writes of thread \<open>t\<close> in it.
  \<open>progress\<close> ties the state of a thread to what it has written: a thread that has not
  been started has written nothing, a running one has written its target's writes up to
  those that remain, and a joined one all of them. \<open>traced\<close> is the invariant of the
  interleaved program.
\<close>

fun stmt_output :: "stmt \<Rightarrow> string" where
  "stmt_output (Print t) = t @ ''\<newline>''"
| "stmt_output Print0 = ''\<newline>''"
| "stmt_output c = []"

definition main_output :: "string \<Rightarrow> int \<Rightarrow> nat \<Rightarrow> string" where
  "main_output mn pid k = concat (map stmt_output (take k (driver mn pid)))"

definition wrote :: "tid \<Rightarrow> (tid \<times> string) list \<Rightarrow> string list" where
  "wrote t tr = map snd (filter (\<lambda>x. fst x = t) tr)"

fun progress :: "tid \<Rightarrow> int \<Rightarrow> thread_state \<Rightarrow> string list \<Rightarrow> bool" where
  "progress t pid (Running r) d = (d @ r = target_writes t pid)"
| "progress t pid Joined d = (d = target_writes t pid)"
| "progress t pid st d = (d = [])"

definition traced :: "nat \<Rightarrow> string \<Rightarrow> int \<Rightarrow> sys \<Rightarrow> (tid \<times> string) list \<Rightarrow> bool" where
  "traced k mn pid s tr =
     (at_pc k mn pid s
      \<and> stdout s = main_output mn pid k @ concat (map snd tr)
      \<and> progress T1 pid (thr s T1) (wrote T1 tr)
      \<and> progress T2 pid (thr s T2) (wrote T2 tr))"

text \<open>
  The agents a step of the model has relocated: those whose position after the step
  differs from their position before it. A library \<open>moves_elsewhere\<close> when the cell
  \<open>move_to_empty\<close> assigns to an agent is never the cell the agent stands on; the cell
  an agent stands on is occupied, hence not empty.
\<close>

definition relocated ::
  "('g, schelling_agent) schelling_model \<Rightarrow> ('g, schelling_agent) schelling_model \<Rightarrow> nat \<Rightarrow> bool" where
  "relocated m m' i = (i < length (schedule m) \<and> pos (schedule m' ! i) \<noteq> pos (schedule m ! i))"

definition n_relocated ::
  "('g, schelling_agent) schelling_model \<Rightarrow> ('g, schelling_agent) schelling_model \<Rightarrow> nat" where
  "n_relocated m m' = length (filter (relocated m m') [0 ..< length (schedule m)])"

definition moves_elsewhere :: "'g mesa \<Rightarrow> bool" where
  "moves_elsewhere lib = (\<forall>g a g' p. move_to_empty lib g a = Inr (g', p) \<longrightarrow> p \<noteq> pos a)"

chapter \<open>Verification\<close>

section \<open>The four ways of counting agree\<close>

lemma list_count_filter: "list_count L x = length (filter (\<lambda>y. y = x) L)"
  by (induction L) auto

lemma list_count_mset: "list_count L x = count (mset L) x"
  by (induction L) auto

lemma dom_occurrence_dict: "dom (occurrence_dict L) = set L"
  by (auto simp: occurrence_dict_def split: if_splits)

text \<open>
  The loop of \<open>count_list\<close> and \<open>count_list2\<close>, started from any dictionary: the keys
  visited get their count in \<open>L\<close>, every other key keeps its entry.
\<close>

lemma count_list_loop_apply:
  "count_list_loop L ks out x = (if x \<in> set ks then Some (list_count L x) else out x)"
  by (induction ks arbitrary: out) (auto simp: dict_update_def)

lemma count_list_loop_occurrences:
  assumes "set ks = set L"
  shows "count_list_loop L ks Map.empty = occurrence_dict L"
  using assms by (auto simp: fun_eq_iff count_list_loop_apply occurrence_dict_def list_count_filter)

text \<open>
  The loop of \<open>count_list3\<close>, started from any dictionary: each key's entry grows by the
  number of times the key is visited.
\<close>

lemma count_list3_loop_apply:
  "count_list3_loop ks out x =
     (if x \<in> set ks then Some (dict_get out x 0 + list_count ks x) else out x)"
proof (induction ks arbitrary: out)
  case Nil
  show ?case by simp
next
  case (Cons k ks)
  have "list_count ks x = 0" if "x \<notin> set ks"
    using that by (induction ks) auto
  then show ?case
    by (auto simp: Cons.IH dict_get_def)
qed

lemma count_list3_occurrences: "count_list3 L = occurrence_dict L"
  by (auto simp: fun_eq_iff count_list3_def count_list3_loop_apply occurrence_dict_def
      dict_get_def list_count_filter)

lemma count_list4_occurrences: "count_list4 L = occurrence_dict L"
  by (auto simp: fun_eq_iff count_list4_def dict_of_counter_def Counter_def occurrence_dict_def
      list_count_filter [symmetric] list_count_mset)

text \<open>
  Claim C4. For every list \<open>L\<close>, \<open>count_list\<close>, \<open>count_list2\<close> (whatever the order \<open>ks\<close>
  in which \<open>set(L)\<close> is iterated), \<open>count_list3\<close> and \<open>count_list4\<close> return equal
  dictionaries: each is the dictionary whose keys are exactly the elements of \<open>L\<close> and
  that maps every key to the number of its occurrences in \<open>L\<close>.
\<close>

theorem count_list_versions_agree:
  assumes "iterates_set_of ks L"
  shows "count_list_py L = occurrence_dict L
       \<and> count_list2 ks L = occurrence_dict L
       \<and> count_list3 L = occurrence_dict L
       \<and> count_list4 L = occurrence_dict L
       \<and> dom (occurrence_dict L) = set L
       \<and> (\<forall>x. x \<in> set L = (occurrence_dict L x = Some (count (mset L) x)))"
proof -
  have ks: "set ks = set L"
    using assms by (simp add: iterates_set_of_def)
  have "count_list_py L = occurrence_dict L"
    by (simp add: count_list_py_def count_list_loop_occurrences)
  moreover have "count_list2 ks L = occurrence_dict L"
    by (simp add: count_list2_def count_list_loop_occurrences ks)
  moreover have "\<forall>x. x \<in> set L = (occurrence_dict L x = Some (count (mset L) x))"
    by (simp add: occurrence_dict_def list_count_filter [symmetric] list_count_mset)
  ultimately show ?thesis
    by (simp add: count_list3_occurrences count_list4_occurrences dom_occurrence_dict)
qed

theorem count_list_versions_agree_witness:
  "iterates_set_of [2, 1] [1, 2, 1 :: int]
   \<and> count_list_py [1, 2, 1 :: int] = occurrence_dict [1, 2, 1]
   \<and> count_list2 [2, 1] [1, 2, 1 :: int] = occurrence_dict [1, 2, 1]
   \<and> count_list3 [1, 2, 1 :: int] = occurrence_dict [1, 2, 1]
   \<and> count_list4 [1, 2, 1 :: int] = occurrence_dict [1, 2, 1]
   \<and> occurrence_dict [1, 2, 1 :: int] 1 = Some 2
   \<and> occurrence_dict [1, 2, 1 :: int] 2 = Some 1
   \<and> occurrence_dict [1, 2, 1 :: int] 3 = None"
proof -
  have h: "iterates_set_of [2, 1] [1, 2, 1 :: int]"
    by (auto simp: iterates_set_of_def)
  have v: "occurrence_dict [1, 2, 1 :: int] 1 = Some 2"
    "occurrence_dict [1, 2, 1 :: int] 2 = Some 1"
    "occurrence_dict [1, 2, 1 :: int] 3 = None"
    by (simp_all add: occurrence_dict_def)
  show ?thesis
    using h v count_list_versions_agree [OF h] by simp
qed

section \<open>Reversing the words\<close>

lemma str_join_Cons:
  "str_join sep (w # ws) = (if ws = [] then w else w @ sep @ str_join sep ws)"
  by (cases ws) auto

text \<open>The index \<open>-k-1\<close> of a list with more than \<open>k\<close> elements is its \<open>k\<close>-th element from
  the end; it is never out of range.\<close>

lemma list_getitem_from_end:
  assumes "k < length ws"
  shows "list_getitem ws (- int k - 1) = Inr (rev ws ! k)"
proof -
  have "nat (int (length ws) - int k - 1) = length ws - Suc k"
    using assms by linarith
  with assms show ?thesis
    by (simp add: list_getitem_def norm_index_def rev_nth algebra_simps)
qed

text \<open>The loop from index \<open>k\<close> on appends the words from the \<open>k\<close>-th of the reversed list
  on, separated by single spaces.\<close>

lemma reverse1_loop_join:
  assumes "k \<le> length ws"
  shows "reverse1_loop ws (int (length ws)) (map int [k ..< length ws]) out
           = Inr (out @ str_join '' '' (drop k (rev ws)))"
  using assms
proof (induction "length ws - k" arbitrary: k out)
  case 0
  then show ?case by simp
next
  case (Suc d)
  then have k: "k < length ws" by linarith
  have idx: "[k ..< length ws] = k # [Suc k ..< length ws]"
    using k by (simp add: upt_conv_Cons)
  have dr: "drop k (rev ws) = rev ws ! k # drop (Suc k) (rev ws)"
    using k by (simp add: Cons_nth_drop_Suc)
  have last: "(drop (Suc k) (rev ws) = []) = (\<not> int k < int (length ws) - 1)"
    using k by auto
  have ih: "reverse1_loop ws (int (length ws)) (map int [Suc k ..< length ws]) out'
           = Inr (out' @ str_join '' '' (drop (Suc k) (rev ws)))" for out'
    using Suc.hyps(1) [of "Suc k" out'] Suc.hyps(2) k by simp
  show ?case
    using last by (simp add: idx list_getitem_from_end [OF k] ih dr str_join_Cons Let_def)
qed

lemma reverse1_joins_reversed_words: "reverse1 s = Inr (str_join '' '' (rev (str_split s)))"
  using reverse1_loop_join [of 0 "str_split s" "[]"]
  by (simp add: reverse1_def range_n_def Let_def)

lemma count_list3_example: "count_list3 ''aba'' = [CHR ''a'' \<mapsto> 2, CHR ''b'' \<mapsto> 1]"
  by (auto simp: count_list3_occurrences occurrence_dict_def fun_eq_iff)

lemma str_split_example: "str_split ''to boldly  go'' = [''to'', ''boldly'', ''go'']"
  by (simp add: str_split_def isspace_def)

text \<open>
  Claim C9, as stated, fails: the notebook defines functions whose results have a
  specification that mentions no library. On the list of characters \<open>a, b, a\<close>,
  \<open>count_list3\<close> returns the dictionary of the numbers of occurrences, and \<open>reverse1\<close>
  of \<open>to boldly  go\<close> is \<open>go boldly to\<close>.
\<close>

theorem original_algorithms_counterexample:
  "count_list3 ''aba'' = [CHR ''a'' \<mapsto> 2, CHR ''b'' \<mapsto> 1]
   \<and> reverse1 ''to boldly  go'' = Inr ''go boldly to''"
  by (simp add: count_list3_example reverse1_joins_reversed_words str_split_example)

text \<open>
  Claim C9, amended. The repository defines functions of its own whose correctness is
  stated and checked without reference to a library: for every list \<open>L\<close>, \<open>count_list3\<close>
  returns the dictionary that has an entry exactly for the elements of \<open>L\<close> and maps each
  to the number of its occurrences; for every string \<open>s\<close>, \<open>reverse1\<close> raises nothing and
  returns the words of \<open>s\<close> in reverse order, separated by single spaces, which is the
  result of \<open>reverse2\<close>.
\<close>

theorem original_algorithms_specified:
  "count_list3 L x = (if x \<in> set L then Some (length (filter (\<lambda>y. y = x) L)) else None)
   \<and> reverse1 s = Inr (str_join '' '' (rev (str_split s)))
   \<and> reverse1 s = Inr (reverse2 s)"
  by (simp add: count_list3_occurrences occurrence_dict_def reverse1_joins_reversed_words
      reverse2_def)

section \<open>The parameter of \<open>split\<close> that is never read\<close>

text \<open>
  Claim C2. \<open>split\<close> never reads its parameter \<open>raw_text\<close>: with the same global \<open>text\<close>,
  the same \<open>max_len\<close> and the same \<open>step_size\<close>, two calls that differ in \<open>raw_text\<close> (in
  its value and even in its type) have the same outcome, the same pair of lists or the
  same exception.
\<close>

theorem split_ignores_raw_text:
  "split text raw_text1 max_len step_size = split text raw_text2 max_len step_size"
  by (simp add: split_def)

text \<open>The result does depend on the global \<open>text\<close>, and an index out of range is an
  exception of \<open>split\<close>.\<close>

lemma split_examples:
  "split ''to boldly go'' raw_text 5 3 = Inr ([''to bo'', ''boldl'', ''dly g''], [''l'', ''y'', ''o''])"
  "split ''to boldly go'' raw_text 5 0 = Inl (ValueError ''range() arg 3 must not be zero'')"
  "split ''to boldly go'' raw_text 20 (- 1) = Inl (IndexError ''string index out of range'')"
  by (simp_all add: split_def py_range_def range_len_def py_slice_def slice_bound_def
      norm_index_def str_getitem_def upt_rec [of _ "Suc _"] numeral_nat)

section \<open>The two tasks only print\<close>

lemma task1_as_writes: "task1 tn pid w = fold py_write (task1_writes tn pid) w"
  by (simp add: task1_def task1_writes_def py_print_def py_print0_def Let_def)

lemma task2_as_writes: "task2 tn pid w = fold py_write (task2_writes tn pid) w"
  by (simp add: task2_def task2_writes_def py_print_def py_print0_def Let_def)

lemma fold_py_write: "fold py_write ws w = w\<lparr>stdout := stdout w @ concat ws\<rparr>"
  by (induction ws arbitrary: w) (simp_all add: py_write_def)

text \<open>
  Claim C6. The two tasks share no mutable state and their only effect is printing:
  the state after \<open>task1\<close> (and after \<open>task2\<close>) is the state before it with text appended
  to standard output, so no global name is assigned and nothing else is changed; and the
  text appended is a function of the executing thread's name and the process identifier
  alone, so a task reads nothing that the other task, which writes standard output only,
  writes. In the interleaved program a step of one worker leaves the globals, the rest of
  the main program and the other worker untouched.
\<close>

theorem tasks_only_print:
  "task1 tn pid w = w\<lparr>stdout := stdout w @ concat (task1_writes tn pid)\<rparr>
   \<and> task2 tn pid w = w\<lparr>stdout := stdout w @ concat (task2_writes tn pid)\<rparr>
   \<and> globals (task1 tn pid w) = globals w
   \<and> globals (task2 tn pid w) = globals w
   \<and> globals (sched_step pid (Worker t) s) = globals s
   \<and> todo (sched_step pid (Worker t) s) = todo s
   \<and> raised (sched_step pid (Worker t) s) = raised s
   \<and> thr (sched_step pid (Worker T1) s) T2 = thr s T2
   \<and> thr (sched_step pid (Worker T2) s) T1 = thr s T1"
proof -
  have "globals (sched_step pid (Worker t) s) = globals s
      \<and> todo (sched_step pid (Worker t) s) = todo s
      \<and> raised (sched_step pid (Worker t) s) = raised s"
    by (simp add: py_write_def split: thread_state.splits list.splits)
  moreover have "thr (sched_step pid (Worker T1) s) T2 = thr s T2"
    "thr (sched_step pid (Worker T2) s) T1 = thr s T1"
    by (simp_all add: py_write_def split: thread_state.splits list.splits)
  ultimately show ?thesis
    by (simp add: task1_as_writes task2_as_writes fold_py_write)
qed

section \<open>What the tasks print\<close>

lemma task1_text:
  "stdout (task1 tn pid w) = stdout w @ ''Task 1 assigned to thread: '' @ tn @ ''\<newline>''
      @ ''ID of process running task 1: '' @ str_of_int pid @ ''\<newline>''
      @ ''To boldly go\<newline>\<newline>''"
  by (simp add: task1_def py_print_def py_print0_def py_write_def)

lemma task2_text:
  "stdout (task2 tn pid w) = stdout w @ ''Task 2 assigned to thread: '' @ tn @ ''\<newline>''
      @ ''ID of process running task 2: '' @ str_of_int pid @ ''\<newline>''
      @ ''Where no one has gone before\<newline>\<newline>''"
  by (simp add: task2_def py_print_def py_print0_def py_write_def)

text \<open>
  Claim C8, as stated, fails: what a task prints depends on the thread that executes it.
  Run by the thread \<open>THREAD 1\<close> and run by the main thread, in the same process and from
  the same state, \<open>task1\<close> prints different text, and so does \<open>task2\<close>.
\<close>

theorem fixed_message_counterexample:
  "stdout (task1 ''THREAD 1'' 6724 empty_world) \<noteq> stdout (task1 ''MainThread'' 6724 empty_world)
   \<and> stdout (task2 ''THREAD 2'' 6724 empty_world) \<noteq> stdout (task2 ''MainThread'' 6724 empty_world)"
  by (simp add: task1_text task2_text empty_world_def)

text \<open>
  Claim C8, amended. Each task prints four lines. The first names the executing thread
  and the second the process identifier, so they vary with the thread's identity and the
  process; the third is a fixed message (\<open>To boldly go\<close> for \<open>task1\<close>, \<open>Where no one has
  gone before\<close> for \<open>task2\<close>) and the fourth is empty, in every run. Two runs of a task
  under the same thread name and process identifier print the same text, whatever the
  state they start from.
\<close>

theorem tasks_print_thread_process_and_fixed_message:
  "stdout (task1 tn pid w) = stdout w @ ''Task 1 assigned to thread: '' @ tn @ ''\<newline>''
      @ ''ID of process running task 1: '' @ str_of_int pid @ ''\<newline>''
      @ ''To boldly go\<newline>\<newline>''
   \<and> stdout (task2 tn pid w) = stdout w @ ''Task 2 assigned to thread: '' @ tn @ ''\<newline>''
      @ ''ID of process running task 2: '' @ str_of_int pid @ ''\<newline>''
      @ ''Where no one has gone before\<newline>\<newline>''
   \<and> drop (length (stdout w)) (stdout (task1 tn pid w))
       = drop (length (stdout w')) (stdout (task1 tn pid w'))
   \<and> drop (length (stdout w)) (stdout (task2 tn pid w))
       = drop (length (stdout w')) (stdout (task2 tn pid w'))"
  by (simp add: task1_text task2_text)

section \<open>Both threads are joined before the cell ends\<close>

lemma at_pc_init: "at_pc 0 mn pid (init mn pid g)"
  by (simp add: at_pc_def init_def)

lemma at_pc_worker:
  assumes "at_pc k mn pid s"
  shows "at_pc k mn pid (sched_step pid (Worker t) s)"
proof (cases "thr s t")
  case (Running ws)
  show ?thesis
  proof (cases ws)
    case Nil
    with Running assms show ?thesis by simp
  next
    case (Cons w ws')
    with Running assms show ?thesis
      by (cases t) (auto simp: at_pc_def py_write_def split: if_splits)
  qed
qed (use assms in simp_all)

lemma is_running_cases: "is_running st = (\<exists>ws. st = Running ws)"
  by (cases st) auto

text \<open>
  The invariant with the output: every step of a worker appends its write to the trace,
  and a step of the main thread leaves the trace as it is. A \<open>join\<close> goes through
  only on a thread that has no write left.
\<close>

lemma wrote_Nil [simp]: "wrote t [] = []"
  by (simp add: wrote_def)

lemma wrote_snoc: "wrote t (tr @ [(u, w)]) = (if u = t then wrote t tr @ [w] else wrote t tr)"
  by (simp add: wrote_def)

lemma no_writes: "wrote T1 tr = [] \<Longrightarrow> wrote T2 tr = [] \<Longrightarrow> tr = []"
proof (induction tr)
  case Nil
  then show ?case by simp
next
  case (Cons x tr)
  then show ?case by (cases "fst x") (auto simp: wrote_def)
qed

lemma traced_init: "traced 0 mn pid (init mn pid g) []"
  using at_pc_init [of mn pid g] by (simp add: traced_def main_output_def) (simp add: init_def)

lemma traced_worker:
  assumes "traced k mn pid s tr"
  shows "\<exists>tr'. traced k mn pid (sched_step pid (Worker t) s) tr'"
proof (cases "thr s t")
  case (Running ws)
  show ?thesis
  proof (cases ws)
    case Nil
    with Running assms show ?thesis by auto
  next
    case (Cons w ws')
    have pc: "at_pc k mn pid (sched_step pid (Worker t) s)"
      using assms at_pc_worker by (simp add: traced_def)
    have "traced k mn pid (sched_step pid (Worker t) s) (tr @ [(t, w)])"
      using assms Running Cons pc
      by (cases t) (auto simp: traced_def wrote_snoc py_write_def)
    then show ?thesis ..
  qed
qed (use assms in auto)

lemma traced_main:
  assumes "traced k mn pid s tr"
  shows "traced k mn pid (sched_step pid MainThread s) tr
       \<or> traced (Suc k) mn pid (sched_step pid MainThread s) tr"
proof -
  have pc: "at_pc k mn pid s" using assms by (simp add: traced_def)
  then have "k \<le> 9" by (simp add: at_pc_def)
  then consider "k = 0" | "k = 1" | "k = 2" | "k = 3" | "k = 4" | "k = 5" | "k = 6"
    | "k = 7" | "k = 8" | "k = 9"
    by atomize_elim arith
  then show ?thesis
  proof cases
    case 1
    then have "tr = []" using assms by (auto simp: traced_def at_pc_def intro: no_writes)
    with 1 assms show ?thesis
      by (auto simp: traced_def at_pc_def main_output_def driver_def py_print_def py_write_def)
  next
    case 2
    then have "tr = []" using assms by (auto simp: traced_def at_pc_def intro: no_writes)
    with 2 assms show ?thesis
      by (auto simp: traced_def at_pc_def main_output_def driver_def py_print_def py_write_def)
  next
    case 3
    then have "tr = []" using assms by (auto simp: traced_def at_pc_def intro: no_writes)
    with 3 assms show ?thesis
      by (auto simp: traced_def at_pc_def main_output_def driver_def py_print0_def py_write_def)
  next
    case 8
    with assms show ?thesis
      by (auto simp: traced_def at_pc_def main_output_def driver_def is_running_cases
          split: list.splits)
  next
    case 9
    with assms show ?thesis
      by (auto simp: traced_def at_pc_def main_output_def driver_def is_running_cases
          split: list.splits)
  qed (use assms in \<open>auto simp: traced_def at_pc_def main_output_def driver_def\<close>)
qed

lemma traced_run:
  assumes "traced k mn pid s tr"
  shows "\<exists>k' tr'. traced k' mn pid (run pid sch s) tr'"
  using assms
proof (induction sch arbitrary: k s tr)
  case Nil
  then show ?case by (auto simp: run_def)
next
  case (Cons a sch)
  have "\<exists>k' tr'. traced k' mn pid (sched_step pid a s) tr'"
  proof (cases a)
    case MainThread
    with traced_main [OF Cons.prems] show ?thesis by blast
  next
    case (Worker t)
    with traced_worker [OF Cons.prems] show ?thesis by blast
  qed
  then obtain k' tr' where "traced k' mn pid (sched_step pid a s) tr'" by blast
  from Cons.IH [OF this] show ?case by (simp add: run_def)
qed

lemma main_output_all:
  "main_output mn pid 9 = ''ID of process running main program: '' @ str_of_int pid @ ''\<newline>''
     @ ''Main thread name: '' @ mn @ ''\<newline>'' @ ''\<newline>''"
  by (simp add: main_output_def driver_def)

lemma traced_finished:
  assumes "traced k mn pid s tr" "todo s = []"
  shows "thr s T1 = Joined \<and> thr s T2 = Joined
       \<and> wrote T1 tr = task1_writes ''THREAD 1'' pid
       \<and> wrote T2 tr = task2_writes ''THREAD 2'' pid
       \<and> stdout s = main_output mn pid 9 @ concat (map snd tr)"
proof -
  have pc: "at_pc k mn pid s" using assms by (simp add: traced_def)
  then have "k \<le> 9" "drop k (driver mn pid) = []"
    using assms by (simp_all add: at_pc_def)
  then have k: "k = 9" by (simp add: driver_def)
  with pc have j: "thr s T1 = Joined" "thr s T2 = Joined"
    by (simp_all add: at_pc_def)
  have "progress T1 pid (thr s T1) (wrote T1 tr)" "progress T2 pid (thr s T2) (wrote T2 tr)"
    "stdout s = main_output mn pid k @ concat (map snd tr)"
    using assms(1) by (simp_all add: traced_def)
  then show ?thesis
    unfolding j k by (simp add: j)
qed

lemma fair_schedule_ends:
  "todo (run pid fair_schedule (init mn pid g)) = []"
  by (simp add: fair_schedule_def run_def init_def driver_def task1_writes_def task2_writes_def
      py_print_def py_print0_def py_write_def)

lemma fair_schedule_output:
  "stdout (run pid fair_schedule (init mn pid g)) =
     ''ID of process running main program: '' @ str_of_int pid @ ''\<newline>''
     @ ''Main thread name: '' @ mn @ ''\<newline>'' @ ''\<newline>''
     @ ''Task 2 assigned to thread: THREAD 2\<newline>''
     @ ''ID of process running task 2: '' @ str_of_int pid @ ''\<newline>''
     @ ''Task 1 assigned to thread: THREAD 1\<newline>''
     @ ''ID of process running task 1: '' @ str_of_int pid @ ''\<newline>''
     @ ''To boldly go\<newline>\<newline>''
     @ ''Where no one has gone before\<newline>\<newline>''"
  by (simp add: fair_schedule_def run_def init_def driver_def task1_writes_def task2_writes_def
      py_print_def py_print0_def py_write_def)

text \<open>
  Claim C7. The driver starts \<open>t1\<close> and \<open>t2\<close> and its last statements are \<open>t1.join()\<close>
  and \<open>t2.join()\<close>; under every schedule of the main thread and the two workers, the
  main thread raises nothing, and whenever it has executed its last statement both
  threads have been joined and both have finished: standard output then holds the three
  lines of the main thread followed by an interleaving of all the writes of \<open>task1\<close>, run
  by \<open>THREAD 1\<close>, and all the writes of \<open>task2\<close>, run by \<open>THREAD 2\<close>. The program never
  gets past the cell while a thread it has started is still running or is not joined.
\<close>

theorem threads_joined_before_end:
  "drop 5 (driver mn pid) = [Start T1, Start T2, Join T1, Join T2]
   \<and> raised (run pid sch (init mn pid g)) = None
   \<and> (todo (run pid sch (init mn pid g)) = [] \<longrightarrow>
        thr (run pid sch (init mn pid g)) T1 = Joined
      \<and> thr (run pid sch (init mn pid g)) T2 = Joined
      \<and> (\<exists>tr. wrote T1 tr = task1_writes ''THREAD 1'' pid
             \<and> wrote T2 tr = task2_writes ''THREAD 2'' pid
             \<and> stdout (run pid sch (init mn pid g)) =
                 ''ID of process running main program: '' @ str_of_int pid @ ''\<newline>''
                 @ ''Main thread name: '' @ mn @ ''\<newline>'' @ ''\<newline>''
                 @ concat (map snd tr)))"
proof -
  obtain k tr where k: "traced k mn pid (run pid sch (init mn pid g)) tr"
    using traced_run [OF traced_init] by blast
  then have "raised (run pid sch (init mn pid g)) = None"
    by (simp add: traced_def at_pc_def)
  moreover have "drop 5 (driver mn pid) = [Start T1, Start T2, Join T1, Join T2]"
    by (simp add: driver_def)
  ultimately show ?thesis
    using traced_finished [OF k] main_output_all [of mn pid] by auto
qed

theorem threads_joined_before_end_witness:
  "todo (run 6724 fair_schedule (init ''MainThread'' 6724 (\<lambda>x. None))) = []
   \<and> thr (run 6724 fair_schedule (init ''MainThread'' 6724 (\<lambda>x. None))) T1 = Joined
   \<and> thr (run 6724 fair_schedule (init ''MainThread'' 6724 (\<lambda>x. None))) T2 = Joined
   \<and> (\<exists>tr. wrote T1 tr = task1_writes ''THREAD 1'' 6724
          \<and> wrote T2 tr = task2_writes ''THREAD 2'' 6724
          \<and> stdout (run 6724 fair_schedule (init ''MainThread'' 6724 (\<lambda>x. None))) =
              ''ID of process running main program: '' @ str_of_int 6724 @ ''\<newline>''
              @ ''Main thread name: '' @ ''MainThread'' @ ''\<newline>'' @ ''\<newline>''
              @ concat (map snd tr))"
  using threads_joined_before_end [of "''MainThread''" 6724 fair_schedule "\<lambda>x. None"]
    fair_schedule_ends [of 6724 "''MainThread''" "\<lambda>x. None"]
  by blast

section \<open>The constructor of the model raises\<close>

lemma ToyAgent_rejects_agent_type:
  "ToyAgent [(''pos'', a), (''agent_type'', b), (''homophily'', c), (''model'', d)]
     = Inl (unexpected_keyword ''agent_type'')"
  by (simp add: ToyAgent_def call2_def)

text \<open>With the keywords of its own parameters the constructor succeeds.\<close>

lemma ToyAgent_accepts_pos_model:
  "ToyAgent [(''pos'', a), (''model'', d)] = Inr (ToyAgent_init a d)"
  by (simp add: ToyAgent_def call2_def)

text \<open>The loop over the cells, from the \<open>n\<close>-th draw on: it raises as soon as a draw is
  below the density, and returns the model unchanged when none is.\<close>

lemma init_loop_raises:
  assumes "\<exists>k < length cs. flt_less (random_random lib (n + k)) density"
  shows "SchellingModel_init_loop lib density h cs n self = Inl (unexpected_keyword ''agent_type'')"
  using assms
proof (induction cs arbitrary: n self)
  case Nil
  then show ?case by simp
next
  case (Cons c cs)
  obtain x y where c: "c = (x, y)" by (cases c)
  show ?case
  proof (cases "flt_less (random_random lib n) density")
    case True
    then show ?thesis by (simp add: c ToyAgent_rejects_agent_type)
  next
    case False
    from Cons.prems obtain k where k: "k < Suc (length cs)" "flt_less (random_random lib (n + k)) density"
      by auto
    with False have "k \<noteq> 0" by (cases k) auto
    then obtain k' where "k = Suc k'" by (cases k) auto
    with k have "\<exists>j < length cs. flt_less (random_random lib (Suc n + j)) density"
      by auto
    from Cons.IH [OF this] False show ?thesis by (simp add: c)
  qed
qed

lemma init_loop_returns:
  assumes "\<forall>k < length cs. \<not> flt_less (random_random lib (n + k)) density"
  shows "SchellingModel_init_loop lib density h cs n self = Inr self"
  using assms
proof (induction cs arbitrary: n)
  case Nil
  then show ?case by simp
next
  case (Cons c cs)
  obtain x y where c: "c = (x, y)" by (cases c)
  have "\<not> flt_less (random_random lib n) density"
    using Cons.prems by force
  moreover have "\<forall>k < length cs. \<not> flt_less (random_random lib (Suc n + k)) density"
    using Cons.prems by force
  ultimately show ?case
    using Cons.IH [of "Suc n"] by (simp add: c)
qed

lemma SchellingModel_init_empty:
  assumes "\<forall>k < length (coord_iter lib (SingleGrid lib width height)).
             \<not> flt_less (random_random lib k) density"
  shows "SchellingModel_init lib w width height density h =
           Inr \<lparr>globals = globals w, stdout = stdout w, schedule = [],
                grid = SingleGrid lib width height, moved = None\<rparr>"
  using init_loop_returns [of "coord_iter lib (SingleGrid lib width height)" lib 0 density] assms
  by (simp add: SchellingModel_init_def)

text \<open>
  Claim C3. \<open>SchellingModel.__init__\<close> constructs \<open>ToyAgent\<close>, never \<open>SchellingAgent\<close>,
  with the keywords \<open>pos\<close>, \<open>agent_type\<close>, \<open>homophily\<close> and \<open>model\<close>, and \<open>ToyAgent\<close>
  accepts \<open>pos\<close> and \<open>model\<close> only. Hence for every width, height, density and
  homophily (and whatever the library does): when the random draw of at least one cell
  of the grid is below the density, the constructor raises the \<open>TypeError\<close> of an
  unexpected keyword argument, \<open>agent_type\<close>.
\<close>

theorem SchellingModel_init_raises_TypeError:
  assumes "\<exists>k < length (coord_iter lib (SingleGrid lib width height)).
             flt_less (random_random lib k) density"
  shows "SchellingModel_init lib w width height density h
           = Inl (TypeError (''__init__() got an unexpected keyword argument '' @ quoted ''agent_type''))"
  using init_loop_raises [of "coord_iter lib (SingleGrid lib width height)" lib 0 density] assms
  by (simp add: SchellingModel_init_def unexpected_keyword_def)

lemma demo_setup_cells: "coord_iter demo_setup (SingleGrid demo_setup 2 2) = [(0, 0), (0, 1), (1, 0), (1, 1)]"
  by (simp add: demo_setup_def all_cells_def upt_rec [of _ "Suc _"] numeral_nat)

theorem SchellingModel_init_raises_TypeError_witness:
  "(\<exists>k < length (coord_iter demo_setup (SingleGrid demo_setup 2 2)).
       flt_less (random_random demo_setup k) (Finite (1 / 2)))
   \<and> SchellingModel_init demo_setup empty_world 2 2 (Finite (1 / 2)) (Finite (1 / 2))
       = Inl (TypeError (''__init__() got an unexpected keyword argument '' @ quoted ''agent_type''))"
proof -
  have "flt_less (random_random demo_setup 2) (Finite (1 / 2))"
    by (simp add: demo_setup_def)
  then have h: "\<exists>k < length (coord_iter demo_setup (SingleGrid demo_setup 2 2)).
       flt_less (random_random demo_setup k) (Finite (1 / 2))"
    unfolding demo_setup_cells by (intro exI [of _ 2]) simp
  show ?thesis
    using h SchellingModel_init_raises_TypeError [OF h] by simp
qed

section \<open>The step of an agent decides and the library relocates\<close>

lemma step_happy:
  assumes "\<not> flt_less (pct_similar_neighbors lib self m) (homophily self)"
  shows "SchellingAgent_step lib i self m = Inr m"
  using assms by (simp add: SchellingAgent_step_def)

lemma step_unhappy:
  assumes "flt_less (pct_similar_neighbors lib self m) (homophily self)"
  shows "SchellingAgent_step lib i self m =
           (case move_to_empty lib (grid m) self of
              Inl e \<Rightarrow> Inl e
            | Inr (g, p) \<Rightarrow>
                (case moved m of
                   None \<Rightarrow> Inl (AttributeError ''moved'')
                 | Some k \<Rightarrow>
                     Inr (m\<lparr>grid := g, schedule := (schedule m)[i := self\<lparr>pos := p\<rparr>],
                             moved := Some (k + 1)\<rparr>)))"
  using assms by (simp add: SchellingAgent_step_def Let_def split: sum.splits option.splits)

lemma pct_A: "pct_similar_neighbors demo_mesa agent_A demo_model = Finite (1 / 2)"
  by (simp add: pct_similar_neighbors_def demo_mesa_def demo_model_def demo_grid_def agent_A_def
      agent_B_def agent_D_def SchellingAgent_init_def torus_adjacent_def exact_mean_def)

lemma pct_B: "pct_similar_neighbors demo_mesa agent_B demo_model = Finite (1 / 2)"
  by (simp add: pct_similar_neighbors_def demo_mesa_def demo_model_def demo_grid_def agent_A_def
      agent_B_def agent_D_def SchellingAgent_init_def torus_adjacent_def exact_mean_def)

lemma pct_D: "pct_similar_neighbors demo_mesa agent_D demo_model = Finite 0"
  by (simp add: pct_similar_neighbors_def demo_mesa_def demo_model_def demo_grid_def agent_A_def
      agent_B_def agent_D_def SchellingAgent_init_def torus_adjacent_def exact_mean_def)

lemma move_D: "move_to_empty demo_mesa demo_grid agent_D = Inr (demo_grid_after, (0, 2))"
  by (simp add: demo_mesa_def demo_grid_def demo_grid_after_def empties_def all_cells_def
      agent_A_def agent_B_def agent_D_def SchellingAgent_init_def
      upt_rec [of _ 5] upt_rec [of _ "Suc _"])

lemma demo_homophily:
  "homophily agent_A = Finite (1 / 2)" "homophily agent_B = Finite (1 / 2)"
  "homophily agent_D = Finite (1 / 2)"
  by (simp_all add: agent_A_def agent_B_def agent_D_def SchellingAgent_init_def)

lemma step_A: "SchellingAgent_step demo_mesa 0 agent_A demo_model = Inr demo_model"
  by (rule step_happy) (simp add: pct_A demo_homophily)

lemma step_B: "SchellingAgent_step demo_mesa (Suc 0) agent_B demo_model = Inr demo_model"
  by (rule step_happy) (simp add: pct_B demo_homophily)

lemma unhappy_D: "flt_less (pct_similar_neighbors demo_mesa agent_D demo_model) (homophily agent_D)"
  by (simp add: pct_D demo_homophily)

lemma step_D: "SchellingAgent_step demo_mesa 2 agent_D demo_model = Inr demo_model_after"
proof -
  have "move_to_empty demo_mesa (grid demo_model) agent_D = Inr (demo_grid_after, (0, 2))"
    using move_D by (simp add: demo_model_def)
  then show ?thesis
    by (simp add: step_unhappy [OF unhappy_D]) (simp add: demo_model_def demo_model_after_def)
qed

text \<open>
  Claim C1, as stated, fails: the method \<open>SchellingAgent.step\<close> of the repository makes
  the threshold comparison and relocates on its outcome. In the example model the square
  \<open>D\<close>, none of whose neighbours is a square, is moved to another cell and counted, while
  the triangle \<open>A\<close>, half of whose neighbours are triangles, is left where it is.
\<close>

theorem threshold_check_counterexample:
  "flt_less (pct_similar_neighbors demo_mesa agent_D demo_model) (homophily agent_D)
   \<and> SchellingAgent_step demo_mesa 2 agent_D demo_model = Inr demo_model_after
   \<and> pos (schedule demo_model_after ! 2) = (0, 2)
   \<and> pos (schedule demo_model ! 2) = (0, 1)
   \<and> moved demo_model_after = Some 1
   \<and> \<not> flt_less (pct_similar_neighbors demo_mesa agent_A demo_model) (homophily agent_A)
   \<and> SchellingAgent_step demo_mesa 0 agent_A demo_model = Inr demo_model"
proof -
  have a: "\<not> flt_less (pct_similar_neighbors demo_mesa agent_A demo_model) (homophily agent_A)"
    by (simp add: pct_A demo_homophily)
  have p: "pos (schedule demo_model_after ! 2) = (0, 2)" "pos (schedule demo_model ! 2) = (0, 1)"
    "moved demo_model_after = Some 1"
    by (simp_all add: demo_model_def demo_model_after_def agent_D_def SchellingAgent_init_def)
  from a p unhappy_D step_D step_A show ?thesis by blast
qed

text \<open>
  Claim C1, amended. The happiness threshold check is made by the repository's own
  \<open>SchellingAgent.step\<close>: it compares the fraction of similar neighbours (the library's
  mean of the comparisons of its own type with the types of the agents the library's
  \<open>neighbor_iter\<close> yields) against its homophily. When the fraction is not below the
  homophily the model is left unchanged and the library is not asked to move anything.
  When it is below, \<open>step\<close> calls the library's \<open>move_to_empty\<close>, which alone chooses the
  empty cell and relocates the agent (an exception of the library is the exception of
  \<open>step\<close>), and then adds one to the model's \<open>moved\<close>.
\<close>

theorem SchellingAgent_step_decides:
  "pct_similar_neighbors lib self m =
       np_mean lib (map (\<lambda>other. type self = type other) (neighbor_iter lib (grid m) (pos self)))
   \<and> (\<not> flt_less (pct_similar_neighbors lib self m) (homophily self)
      \<longrightarrow> SchellingAgent_step lib i self m = Inr m)
   \<and> (flt_less (pct_similar_neighbors lib self m) (homophily self)
      \<longrightarrow> SchellingAgent_step lib i self m =
            (case move_to_empty lib (grid m) self of
               Inl e \<Rightarrow> Inl e
             | Inr (g, p) \<Rightarrow>
                 (case moved m of
                    None \<Rightarrow> Inl (AttributeError ''moved'')
                  | Some k \<Rightarrow>
                      Inr (m\<lparr>grid := g, schedule := (schedule m)[i := self\<lparr>pos := p\<rparr>],
                              moved := Some (k + 1)\<rparr>))))"
  using step_happy [of lib self m i] step_unhappy [of lib self m i]
  by (auto simp: pct_similar_neighbors_def)

theorem SchellingAgent_step_decides_witness:
  "\<not> flt_less (pct_similar_neighbors demo_mesa agent_A demo_model) (homophily agent_A)
   \<and> SchellingAgent_step demo_mesa 0 agent_A demo_model = Inr demo_model
   \<and> flt_less (pct_similar_neighbors demo_mesa agent_D demo_model) (homophily agent_D)
   \<and> SchellingAgent_step demo_mesa 2 agent_D demo_model =
       (case move_to_empty demo_mesa (grid demo_model) agent_D of
          Inl e \<Rightarrow> Inl e
        | Inr (g, p) \<Rightarrow>
            (case moved demo_model of
               None \<Rightarrow> Inl (AttributeError ''moved'')
             | Some k \<Rightarrow>
                 Inr (demo_model\<lparr>grid := g,
                        schedule := (schedule demo_model)[2 := agent_D\<lparr>pos := p\<rparr>],
                        moved := Some (k + 1)\<rparr>)))"
proof -
  have a: "\<not> flt_less (pct_similar_neighbors demo_mesa agent_A demo_model) (homophily agent_A)"
    by (simp add: pct_A demo_homophily)
  show ?thesis
    using a unhappy_D
      SchellingAgent_step_decides [of demo_mesa agent_A demo_model 0]
      SchellingAgent_step_decides [of demo_mesa agent_D demo_model 2]
    by blast
qed

section \<open>The counter of the model counts the relocated agents\<close>

text \<open>One step of an agent: the other places of the schedule are untouched, and the counter
  grows by one exactly when the agent's position has changed.\<close>

lemma step_effect:
  assumes "SchellingAgent_step lib i (schedule m ! i) m = Inr m1" "moved m = Some k"
    "moves_elsewhere lib" "i < length (schedule m)"
  shows "length (schedule m1) = length (schedule m)
       \<and> (\<forall>j. j \<noteq> i \<longrightarrow> schedule m1 ! j = schedule m ! j)
       \<and> moved m1 = Some (k + (if pos (schedule m1 ! i) \<noteq> pos (schedule m ! i) then 1 else 0))"
proof (cases "flt_less (pct_similar_neighbors lib (schedule m ! i) m) (homophily (schedule m ! i))")
  case False
  with assms show ?thesis by (simp add: step_happy)
next
  case True
  from assms(1) obtain g p where mv: "move_to_empty lib (grid m) (schedule m ! i) = Inr (g, p)"
    and m1: "m1 = m\<lparr>grid := g, schedule := (schedule m)[i := (schedule m ! i)\<lparr>pos := p\<rparr>],
                     moved := Some (k + 1)\<rparr>"
    using assms(2) by (auto simp: step_unhappy [OF True] split: sum.splits)
  have "p \<noteq> pos (schedule m ! i)"
    using mv assms(3) unfolding moves_elsewhere_def by blast
  with m1 assms(4) show ?thesis by simp
qed

text \<open>A sweep over agents that are activated once each.\<close>

lemma activate_effect:
  assumes "moves_elsewhere lib"
  shows "distinct order \<Longrightarrow> moved m = Some k \<Longrightarrow> activate lib order m = Inr m' \<Longrightarrow>
     length (schedule m') = length (schedule m)
     \<and> (\<forall>j. j \<notin> set order \<longrightarrow> schedule m' ! j = schedule m ! j)
     \<and> moved m' = Some (k + int (length (filter (relocated m m') order)))"
proof (induction order arbitrary: m k)
  case Nil
  then show ?case by simp
next
  case (Cons i rest)
  show ?case
  proof (cases "i < length (schedule m)")
    case False
    then have "activate lib rest m = Inr m'" using Cons.prems by simp
    from Cons.IH [OF _ Cons.prems(2) this] Cons.prems(1) False show ?thesis
      by (auto simp: relocated_def)
  next
    case True
    then obtain m1 where s: "SchellingAgent_step lib i (schedule m ! i) m = Inr m1"
      and r: "activate lib rest m1 = Inr m'"
      using Cons.prems(3) by (auto split: sum.splits)
    let ?d = "if pos (schedule m1 ! i) \<noteq> pos (schedule m ! i) then 1 else (0::int)"
    from step_effect [OF s Cons.prems(2) assms True]
    have len1: "length (schedule m1) = length (schedule m)"
      and same1: "\<And>j. j \<noteq> i \<Longrightarrow> schedule m1 ! j = schedule m ! j"
      and mv1: "moved m1 = Some (k + ?d)"
      by auto
    from Cons.prems(1) have d: "distinct rest" "i \<notin> set rest" by auto
    from Cons.IH [OF d(1) mv1 r]
    have len: "length (schedule m') = length (schedule m1)"
      and same: "\<And>j. j \<notin> set rest \<Longrightarrow> schedule m' ! j = schedule m1 ! j"
      and mv: "moved m' = Some (k + ?d + int (length (filter (relocated m1 m') rest)))"
      by auto
    have "schedule m1 ! x = schedule m ! x" if "x \<in> set rest" for x
      using that d(2) same1 [of x] by auto
    then have "filter (relocated m1 m') rest = filter (relocated m m') rest"
      using len1 by (intro filter_cong) (auto simp: relocated_def)
    moreover have "relocated m m' i = (pos (schedule m1 ! i) \<noteq> pos (schedule m ! i))"
      using True same [OF d(2)] by (simp add: relocated_def)
    ultimately have "moved m' = Some (k + int (length (filter (relocated m m') (i # rest))))"
      using mv by simp
    moreover have "\<forall>j. j \<notin> set (i # rest) \<longrightarrow> schedule m' ! j = schedule m ! j"
      using same same1 by simp
    ultimately show ?thesis using len len1 by simp
  qed
qed

lemma count_relocated:
  assumes "distinct order" "\<forall>j. j \<notin> set order \<longrightarrow> schedule m' ! j = schedule m ! j"
  shows "length (filter (relocated m m') order) = n_relocated m m'"
proof -
  have "set (filter (relocated m m') order) = set (filter (relocated m m') [0 ..< length (schedule m)])"
    using assms(2) by (auto simp: relocated_def)
  moreover have "distinct (filter (relocated m m') order)"
    "distinct (filter (relocated m m') [0 ..< length (schedule m)])"
    using assms(1) by simp_all
  ultimately show ?thesis
    unfolding n_relocated_def by (metis distinct_card)
qed

lemma demo_moves_elsewhere: "moves_elsewhere demo_mesa"
  unfolding moves_elsewhere_def
proof (intro allI impI)
  fix g a g' p
  assume "move_to_empty demo_mesa g a = Inr (g', p)"
  then obtain qs where "filter (\<lambda>q. q \<noteq> pos a) (empties g) = p # qs"
    by (auto simp: demo_mesa_def split: list.splits)
  then have "p \<in> set (filter (\<lambda>q. q \<noteq> pos a) (empties g))"
    by (metis list.set_intros(1))
  then show "p \<noteq> pos a" by simp
qed

lemma demo_activate: "activate demo_mesa [0, 1, 2] demo_model = Inr demo_model_after"
proof -
  have s: "schedule demo_model = [agent_A, agent_B, agent_D]"
    by (simp add: demo_model_def)
  show ?thesis
    by (simp add: s step_A step_B step_D)
qed

lemma demo_step:
  "SchellingModel_step demo_mesa demo_model
     = Inr (demo_model_after\<lparr>stdout := ''1 agents moved in this timestep\<newline>''\<rparr>)"
proof -
  have m0: "demo_model\<lparr>moved := Some 0\<rparr> = demo_model"
    by (simp add: demo_model_def)
  have sh: "shuffle demo_mesa (grid demo_model) [0 ..< length (schedule demo_model)] = [0, 1, 2]"
    by (simp add: demo_mesa_def demo_model_def upt_rec [of _ "Suc _"] numeral_nat)
  have one: "str_of_int 1 = ''1''"
    by code_simp
  show ?thesis
    unfolding SchellingModel_step_def Let_def m0 sh demo_activate
    by (simp add: one demo_model_after_def py_print_def py_write_def)
qed

lemma demo_positions:
  "map pos (schedule demo_model) = [(0, 0), (1, 0), (0, 1)]"
  "map pos (schedule (demo_model_after\<lparr>stdout := out\<rparr>)) = [(0, 0), (1, 0), (0, 2)]"
  "moved (demo_model_after\<lparr>stdout := out\<rparr>) = Some 1"
  by (simp_all add: demo_model_def demo_model_after_def agent_A_def agent_B_def agent_D_def
      SchellingAgent_init_def)

lemma demo_distinct:
  "distinct (shuffle demo_mesa (grid demo_model) [0 ..< length (schedule demo_model)])"
  by (simp add: demo_mesa_def)

text \<open>
  Claim C10, as stated, fails: \<open>SchellingModel\<close> has an attribute of its own, \<open>moved\<close>,
  whose value is tied to the state of the simulation. In the example the step of the model
  changes the position of exactly one agent, the third, and leaves \<open>moved\<close> at one.
\<close>

theorem model_attribute_counterexample:
  "SchellingModel_step demo_mesa demo_model
     = Inr (demo_model_after\<lparr>stdout := ''1 agents moved in this timestep\<newline>''\<rparr>)
   \<and> moved (demo_model_after\<lparr>stdout := ''1 agents moved in this timestep\<newline>''\<rparr>) = Some 1
   \<and> map pos (schedule demo_model) = [(0, 0), (1, 0), (0, 1)]
   \<and> map pos (schedule (demo_model_after\<lparr>stdout := ''1 agents moved in this timestep\<newline>''\<rparr>))
       = [(0, 0), (1, 0), (0, 2)]"
  using demo_step demo_positions by blast

text \<open>
  Claim C10, amended. The grid and the scheduler belong to the library, but the
  repository's classes add attributes of their own (\<open>SchellingAgent\<close>: \<open>pos\<close>, \<open>type\<close>,
  \<open>homophily\<close>; \<open>SchellingModel\<close>: \<open>moved\<close>), and \<open>moved\<close> carries an invariant that
  relates it to the state of the simulation: whenever \<open>SchellingModel.step\<close> returns,
  \<open>moved\<close> is the number of agents of the schedule whose position the step has changed,
  and the schedule has kept its length. This holds for every library that moves an agent
  to a cell other than the one it stands on and activates no agent twice in a step.
\<close>

theorem moved_counts_relocated_agents:
  assumes "moves_elsewhere lib"
    and "distinct (shuffle lib (grid m) [0 ..< length (schedule m)])"
    and "SchellingModel_step lib m = Inr m'"
  shows "moved m' = Some (int (n_relocated m m')) \<and> length (schedule m') = length (schedule m)"
proof -
  let ?m0 = "m\<lparr>moved := Some 0\<rparr>"
  let ?order = "shuffle lib (grid m) [0 ..< length (schedule m)]"
  from assms(3) obtain m1 k where a: "activate lib ?order ?m0 = Inr m1"
    and k: "moved m1 = Some k"
    and m': "m' = py_print (py_format ''{} agents moved in this timestep'' (str_of_int k)) m1"
    by (auto simp: SchellingModel_step_def Let_def split: sum.splits option.splits)
  have "moved ?m0 = Some 0" by simp
  from activate_effect [OF assms(1,2) this a]
  have len: "length (schedule m1) = length (schedule m)"
    and same: "\<forall>j. j \<notin> set ?order \<longrightarrow> schedule m1 ! j = schedule ?m0 ! j"
    and mv: "moved m1 = Some (int (length (filter (relocated ?m0 m1) ?order)))"
    by auto
  have "length (filter (relocated ?m0 m1) ?order) = n_relocated ?m0 m1"
    using count_relocated [OF assms(2) same] .
  moreover have "n_relocated ?m0 m1 = n_relocated m m'"
    by (simp add: n_relocated_def relocated_def m' py_print_def py_write_def cong: filter_cong)
  moreover have "moved m' = moved m1" "schedule m' = schedule m1"
    by (simp_all add: m' py_print_def py_write_def)
  ultimately show ?thesis using mv len by simp
qed

theorem moved_counts_relocated_agents_witness:
  "moves_elsewhere demo_mesa
   \<and> distinct (shuffle demo_mesa (grid demo_model) [0 ..< length (schedule demo_model)])
   \<and> SchellingModel_step demo_mesa demo_model
       = Inr (demo_model_after\<lparr>stdout := ''1 agents moved in this timestep\<newline>''\<rparr>)
   \<and> moved (demo_model_after\<lparr>stdout := ''1 agents moved in this timestep\<newline>''\<rparr>)
       = Some (int (n_relocated demo_model
                      (demo_model_after\<lparr>stdout := ''1 agents moved in this timestep\<newline>''\<rparr>)))
   \<and> length (schedule (demo_model_after\<lparr>stdout := ''1 agents moved in this timestep\<newline>''\<rparr>))
       = length (schedule demo_model)"
  using moved_counts_relocated_agents [OF demo_moves_elsewhere demo_distinct demo_step]
    demo_moves_elsewhere demo_distinct demo_step
  by blast

section \<open>Errors reach the caller unchanged\<close>


































end
